theory Spec2Isabelle
  imports Main "HOL-Library.Word"
begin

section \<open>JavaScript strings\<close>

text \<open>
  A JavaScript string is a sequence of UTF-16 code units: \<open>length\<close>, \<open>slice\<close>,
  \<open>split\<close> and \<open>trim\<close> all count and cut code units. ASCII literals of the source
  are embedded with \<open>ascii\<close>; the emoji of the fallback suggestions are written as their
  surrogate pairs.
\<close>

type_synonym jschar = "16 word"
type_synonym jsstring = "jschar list"

definition ascii :: "string \<Rightarrow> jsstring" where
  "ascii s = map of_char s"

text \<open>
  \<open>String.prototype.trim\<close> removes WhiteSpace and LineTerminator code units from both
  ends: TAB, LF, VT, FF, CR, SP, NBSP, the Unicode space separators and the BOM.
\<close>

definition isWhiteSpace :: "jschar \<Rightarrow> bool" where
  "isWhiteSpace c \<longleftrightarrow>
     c \<in> set [0x0009, 0x000A, 0x000B, 0x000C, 0x000D, 0x0020, 0x00A0, 0x1680,
              0x2000, 0x2001, 0x2002, 0x2003, 0x2004, 0x2005, 0x2006, 0x2007,
              0x2008, 0x2009, 0x200A, 0x2028, 0x2029, 0x202F, 0x205F, 0x3000, 0xFEFF]"

definition trim :: "jsstring \<Rightarrow> jsstring" where
  "trim s = rev (dropWhile isWhiteSpace (rev (dropWhile isWhiteSpace s)))"

text \<open>
  \<open>s.split(sep)\<close> for a one-unit separator: the pieces between the separators, so
  \<open>''''.split('','')\<close> is one empty piece and \<open>''a,''\<close> gives \<open>[''a'', '''']\<close>.
\<close>

fun split :: "jschar \<Rightarrow> jsstring \<Rightarrow> jsstring list" where
  "split sep [] = [[]]"
| "split sep (c # cs) =
     (if c = sep then [] # split sep cs
      else (case split sep cs of
              [] \<Rightarrow> [[c]]
            | p # ps \<Rightarrow> (c # p) # ps))"

text \<open>Reading an array element: \<open>undefined\<close> out of range.\<close>

definition at_index :: "'a list \<Rightarrow> nat \<Rightarrow> 'a option" where
  "at_index xs i = (if i < length xs then Some (xs ! i) else None)"

text \<open>
  \<open>Number.prototype.toString\<close> on a non-negative integer below \<open>10^21\<close>: its decimal
  digits. \<open>Date.now()\<close> is such an integer (epoch milliseconds), and so is
  \<open>Date.now() + 1\<close>.
\<close>

definition digit :: "nat \<Rightarrow> jschar" where
  "digit d = of_nat (48 + d)"

fun toString :: "nat \<Rightarrow> jsstring" where
  "toString n = (if n < 10 then [digit n] else toString (n div 10) @ [digit (n mod 10)])"

declare toString.simps [simp del]

section \<open>Data model (types.ts)\<close>

datatype Sender = User | AI

record Attachment =
  mimeType :: jsstring
  data :: jsstring
  fileName :: jsstring

text \<open>The optional fields \<open>isThinking?\<close> and \<open>attachments?\<close> are \<open>None\<close> when absent.\<close>

record Message =
  msg_id :: jsstring
  msg_text :: jsstring
  msg_sender :: Sender
  msg_timestamp :: nat
  msg_isThinking :: "bool option"
  msg_attachments :: "Attachment list option"

record ChatHistoryItem =
  item_id :: jsstring
  item_title :: jsstring
  item_messages :: "Message list"
  item_timestamp :: nat

section \<open>Remote session client (services/geminiService.ts)\<close>

text \<open>The message handed to \<open>chatSession.sendMessageStream\<close>: a string or an array of parts.\<close>

datatype Part = TextPart jsstring | InlineData jsstring jsstring

datatype MessageContent = RawText jsstring | Parts "Part list"

record Chat =
  model :: jsstring
  thinkingBudget :: "nat option"

definition initializeChat :: "bool \<Rightarrow> Chat" where
  "initializeChat useThinking =
     \<lparr> model = ascii ''gemini-2.5-flash'',
       thinkingBudget = (if useThinking then Some 4096 else None) \<rparr>"

definition attachmentPart :: "Attachment \<Rightarrow> Part" where
  "attachmentPart att = InlineData (mimeType att) (data att)"

definition buildMessageContent :: "jsstring \<Rightarrow> Attachment list \<Rightarrow> MessageContent" where
  "buildMessageContent txt atts =
     (if length atts > 0
      then Parts ((if txt \<noteq> [] then [TextPart txt] else []) @ map attachmentPart atts)
      else RawText txt)"

text \<open>
  What the remote endpoint does with a request is not the repository's code: it is a
  parameter. A result stream is the sequence of its chunks, each with its optional
  \<open>text\<close>, and how the stream ends; a call that rejects before any chunk is a stream
  with no chunk that \<open>Throws\<close>.
\<close>

datatype StreamEnd = Done | Throws

record ResultStream =
  chunks :: "jsstring option list"
  ending :: StreamEnd

type_synonym Remote = "MessageContent \<Rightarrow> ResultStream"

datatype error =
    InitError        \<comment> \<open>\<open>Failed to initialize chat session.\<close>\<close>
  | RemoteError      \<comment> \<open>the SDK call or the stream rejects\<close>
  | TypeError        \<comment> \<open>reading a property of \<open>undefined\<close>\<close>
  | EmptyResponse    \<comment> \<open>\<open>Empty response\<close>\<close>
  | SyntaxError      \<comment> \<open>\<open>JSON.parse\<close> throws\<close>
  | ReadError        \<comment> \<open>\<open>reader.onerror\<close>\<close>
  | ConvertError     \<comment> \<open>\<open>Failed to convert file to string\<close>\<close>

text \<open>
  The \<open>for await\<close> loop of \<open>sendMessageStream\<close>: a chunk whose text is \<open>undefined\<close> or
  empty is skipped, every other one is handed to \<open>onChunk\<close>. A callback that throws ends
  the loop with what it had done so far.
\<close>

fun forAwait ::
  "(jsstring \<Rightarrow> 'st \<Rightarrow> 'st \<times> error option) \<Rightarrow> jsstring option list \<Rightarrow> StreamEnd \<Rightarrow> 'st
     \<Rightarrow> 'st \<times> error option" where
  "forAwait onChunk [] e st = (st, (case e of Done \<Rightarrow> None | Throws \<Rightarrow> Some RemoteError))"
| "forAwait onChunk (None # cs) e st = forAwait onChunk cs e st"
| "forAwait onChunk (Some t # cs) e st =
     (if t \<noteq> [] then
        (case onChunk t st of
           (st', Some err) \<Rightarrow> (st', Some err)
         | (st', None) \<Rightarrow> forAwait onChunk cs e st')
      else forAwait onChunk cs e st)"

section \<open>Suggestion provider (services/geminiService.ts)\<close>

record Suggestion =
  icon :: jsstring
  suggestion_text :: jsstring

datatype RemoteResponse = CallRejects | Response "jsstring option"

definition fallbackSuggestions :: "Suggestion list" where
  "fallbackSuggestions =
     [ \<lparr> icon = [0xD83D, 0xDC0D], suggestion_text = ascii ''Write a Python script for web scraping'' \<rparr>,
       \<lparr> icon = [0xD83C, 0xDFA8], suggestion_text = ascii ''Explain CSS Grid vs Flexbox'' \<rparr>,
       \<lparr> icon = [0xD83D, 0xDC1B], suggestion_text = ascii ''Debug this React useEffect hook'' \<rparr>,
       \<lparr> icon = [0xD83D, 0xDCCA], suggestion_text = ascii ''Visualize data with Matplotlib'' \<rparr> ]"

text \<open>
  The body of the \<open>try\<close> block. \<open>JSON.parse\<close> is the platform's: a parameter that
  returns \<open>None\<close> where it throws.
\<close>

definition generateSuggestions_try ::
  "(jsstring \<Rightarrow> Suggestion list option) \<Rightarrow> RemoteResponse \<Rightarrow> error + Suggestion list" where
  "generateSuggestions_try parse r =
     (case r of
        CallRejects \<Rightarrow> Inl RemoteError
      | Response None \<Rightarrow> Inl EmptyResponse
      | Response (Some t) \<Rightarrow>
          (if t \<noteq> [] then (case parse t of None \<Rightarrow> Inl SyntaxError | Some v \<Rightarrow> Inr v)
           else Inl EmptyResponse))"

text \<open>The whole function with its \<open>catch\<close>: \<open>Inl\<close> would be a rejected promise.\<close>

definition generateSuggestions ::
  "(jsstring \<Rightarrow> Suggestion list option) \<Rightarrow> RemoteResponse \<Rightarrow> error + Suggestion list" where
  "generateSuggestions parse r =
     (case generateSuggestions_try parse r of
        Inl e \<Rightarrow> Inr fallbackSuggestions
      | Inr v \<Rightarrow> Inr v)"

section \<open>Attachment codec (App.tsx)\<close>

text \<open>
  What the \<open>FileReader\<close> delivers after \<open>readAsDataURL\<close>: an error event, or a load
  event whose \<open>result\<close> is a string or not.
\<close>

datatype ReaderOutcome = ReaderFails | Loaded "jsstring option"

definition comma :: jschar where
  "comma = 0x2C"

text \<open>The promise resolves with \<open>split('','')[1]\<close>, which is \<open>undefined\<close> without a comma.\<close>

definition fileToBase64 :: "ReaderOutcome \<Rightarrow> error + jsstring option" where
  "fileToBase64 r =
     (case r of
        ReaderFails \<Rightarrow> Inl ReadError
      | Loaded None \<Rightarrow> Inl ConvertError
      | Loaded (Some result) \<Rightarrow> Inr (at_index (split comma result) 1))"

section \<open>Conversation engine and history (App.tsx)\<close>

text \<open>
  The component's state, one field per \<open>useState\<close>, together with the module variable
  \<open>chatSession\<close> of the service and a log \<open>sent\<close> of the requests made to the remote
  endpoint. Every handler runs to completion on the current state, and an updater given
  to a state setter is applied at once. An updater that throws does not throw in the
  handler that called the setter: React keeps the error for the render phase, where it
  takes the component down. \<open>renderError\<close> holds that error and the state the updater was
  given is kept. The clock is read as a natural number.
\<close>

record AppState =
  messages :: "Message list"
  inputText :: jsstring
  attachments :: "Attachment list"
  isLoading :: bool
  useThinking :: bool
  suggestions :: "Suggestion list"
  isSidebarOpen :: bool
  history :: "ChatHistoryItem list"
  activeChatId :: "jsstring option"
  hasStarted :: bool
  chatSession :: "Chat option"
  sent :: "MessageContent list"
  renderError :: "error option"

text \<open>\<open>!activeChatId\<close>: \<open>null\<close> and the empty string are falsy.\<close>

definition falsy :: "jsstring option \<Rightarrow> bool" where
  "falsy v = (case v of None \<Rightarrow> True | Some t \<Rightarrow> t = [])"

text \<open>The title of a saved session, with its \<open>|| "New Chat"\<close>.\<close>

definition sessionTitle :: "jsstring \<Rightarrow> jsstring" where
  "sessionTitle txt =
     (let title = take 30 txt @ (if length txt > 30 then ascii ''...'' else [])
      in if title \<noteq> [] then title else ascii ''New Chat'')"

text \<open>The updater handed to \<open>setHistory\<close>.\<close>

definition upsertHistory :: "jsstring \<Rightarrow> ChatHistoryItem \<Rightarrow> ChatHistoryItem list \<Rightarrow> ChatHistoryItem list" where
  "upsertHistory chatId newItem prev =
     (case find (\<lambda>item. item_id item = chatId) prev of
        Some exists \<Rightarrow> map (\<lambda>item. if item_id item = chatId then newItem else item) prev
      | None \<Rightarrow> newItem # prev)"

text \<open>
  \<open>saveCurrentSession\<close> reads the clock for the id (only when there is no active id)
  and for the timestamp: \<open>nowId\<close> and \<open>nowTs\<close>.
\<close>

definition sessionChatId :: "nat \<Rightarrow> AppState \<Rightarrow> jsstring" where
  "sessionChatId nowId s =
     (case activeChatId s of
        None \<Rightarrow> toString nowId
      | Some a \<Rightarrow> if a \<noteq> [] then a else toString nowId)"

definition saveCurrentSession :: "nat \<Rightarrow> nat \<Rightarrow> AppState \<Rightarrow> AppState" where
  "saveCurrentSession nowId nowTs s =
     (case messages s of
        [] \<Rightarrow> s
      | m0 # ms \<Rightarrow>
          (let chatId = sessionChatId nowId s;
               newItem = \<lparr> item_id = chatId,
                           item_title = sessionTitle (msg_text m0),
                           item_messages = messages s,
                           item_timestamp = nowTs \<rparr>
           in s\<lparr> history := upsertHistory chatId newItem (history s) \<rparr>))"

text \<open>
  \<open>handleNewChat\<close>; the suggestions it asks for arrive later, through \<open>setSuggestions\<close>.
\<close>

definition handleNewChat :: "nat \<Rightarrow> nat \<Rightarrow> AppState \<Rightarrow> AppState" where
  "handleNewChat nowId nowTs s =
     (let s1 = (if length (messages s) > 0 then saveCurrentSession nowId nowTs s else s)
      in s1\<lparr> messages := [], attachments := [], hasStarted := False, activeChatId := None,
              chatSession := Some (initializeChat (useThinking s1)), suggestions := [] \<rparr>)"

definition loadHistoryItem :: "nat \<Rightarrow> nat \<Rightarrow> nat \<Rightarrow> ChatHistoryItem \<Rightarrow> AppState \<Rightarrow> AppState" where
  "loadHistoryItem innerWidth nowId nowTs item s =
     (let s1 = (if length (messages s) > 0 \<and> activeChatId s \<noteq> Some (item_id item)
                then saveCurrentSession nowId nowTs s else s);
          s2 = s1\<lparr> messages := item_messages item, activeChatId := Some (item_id item),
                   hasStarted := True, attachments := [] \<rparr>
      in if innerWidth < 768 then s2\<lparr> isSidebarOpen := False \<rparr> else s2)"

text \<open>
  \<open>sendMessageStream\<close>, run on the pair of the caller's accumulator and the state. The
  session is created when absent, the request is built and sent, and the stream is
  consumed; the \<open>catch\<close> rethrows what it caught.
\<close>

definition sendMessageStream ::
  "Remote \<Rightarrow> jsstring \<Rightarrow> Attachment list
     \<Rightarrow> (jsstring \<Rightarrow> jsstring \<times> AppState \<Rightarrow> (jsstring \<times> AppState) \<times> error option)
     \<Rightarrow> jsstring \<times> AppState \<Rightarrow> (jsstring \<times> AppState) \<times> error option" where
  "sendMessageStream remote txt atts onChunk st =
     (let s1 = (if chatSession (snd st) = None
                then (snd st)\<lparr> chatSession := Some (initializeChat False) \<rparr> else snd st)
      in if chatSession s1 = None then ((fst st, s1), Some InitError)
         else
           (let messageContent = buildMessageContent txt atts;
                s2 = s1\<lparr> sent := sent s1 @ [messageContent] \<rparr>;
                resultStream = remote messageContent
            in forAwait onChunk (chunks resultStream) (ending resultStream) (fst st, s2)))"

text \<open>
  \<open>handleSubmit\<close> reads the clock seven times: for the conversation id, for the user
  message's id and timestamp, for the placeholder's id and timestamp, and in the
  \<open>catch\<close> for the error message's id and timestamp.
\<close>

record SubmitClock =
  nowChatId :: nat
  nowUserId :: nat
  nowUserTs :: nat
  nowAiId :: nat
  nowAiTs :: nat
  nowErrId :: nat
  nowErrTs :: nat

definition submitRejected :: "AppState \<Rightarrow> bool" where
  "submitRejected s \<longleftrightarrow>
     (trim (inputText s) = [] \<and> length (attachments s) = 0) \<or> isLoading s"

definition userMessage :: "SubmitClock \<Rightarrow> AppState \<Rightarrow> Message" where
  "userMessage clk s =
     \<lparr> msg_id = toString (nowUserId clk),
       msg_text = trim (inputText s),
       msg_sender = User,
       msg_timestamp = nowUserTs clk,
       msg_isThinking = None,
       msg_attachments = Some (attachments s) \<rparr>"

definition aiMessageId :: "SubmitClock \<Rightarrow> jsstring" where
  "aiMessageId clk = toString (nowAiId clk + 1)"

definition aiMessagePlaceholder :: "SubmitClock \<Rightarrow> Message" where
  "aiMessagePlaceholder clk =
     \<lparr> msg_id = aiMessageId clk,
       msg_text = [],
       msg_sender = AI,
       msg_timestamp = nowAiTs clk,
       msg_isThinking = None,
       msg_attachments = None \<rparr>"

definition errorNotice :: jsstring where
  "errorNotice = ascii
     ''I encountered an error connecting to the AI. Please check your API key and internet connection.''"

definition errorMessage :: "SubmitClock \<Rightarrow> Message" where
  "errorMessage clk =
     \<lparr> msg_id = toString (nowErrId clk),
       msg_text = errorNotice,
       msg_sender = AI,
       msg_timestamp = nowErrTs clk,
       msg_isThinking = None,
       msg_attachments = None \<rparr>"

text \<open>The part of an accepted \<open>handleSubmit\<close> that runs before the \<open>await\<close>.\<close>

definition handleSubmit_begin :: "SubmitClock \<Rightarrow> AppState \<Rightarrow> AppState" where
  "handleSubmit_begin clk s =
     (let s1 = (if falsy (activeChatId s)
                then s\<lparr> activeChatId := Some (toString (nowChatId clk)) \<rparr> else s)
      in s1\<lparr> messages := messages s1 @ [userMessage clk s],
              inputText := [],
              attachments := [],
              isLoading := True,
              hasStarted := True \<rparr>)"

text \<open>
  The callback given to \<open>sendMessageStream\<close>, on the accumulator \<open>fullResponse\<close> and the
  state. It extends the accumulator and hands an updater to \<open>setMessages\<close>. On an empty
  timeline \<open>prev[prev.length - 1]\<close> is \<open>undefined\<close> and the updater throws when it reads
  its \<open>id\<close>: the callback itself returns normally, so the stream goes on, and the error
  is left to the render phase.
\<close>

definition onChunk ::
  "jsstring \<Rightarrow> Message \<Rightarrow> jsstring \<Rightarrow> jsstring \<times> AppState \<Rightarrow> (jsstring \<times> AppState) \<times> error option" where
  "onChunk aiId placeholder chunk st =
     (let fullResponse = fst st @ chunk; s = snd st
      in case messages s of
           [] \<Rightarrow> ((fullResponse, s\<lparr> renderError := Some TypeError \<rparr>), None)
         | m # ms \<Rightarrow>
             (let prev = messages s; lastMsg = last prev
              in if msg_id lastMsg = aiId
                 then ((fullResponse,
                        s\<lparr> messages := butlast prev @ [lastMsg\<lparr> msg_text := fullResponse \<rparr>] \<rparr>), None)
                 else ((fullResponse,
                        s\<lparr> messages := prev @ [placeholder\<lparr> msg_text := fullResponse \<rparr>] \<rparr>), None)))"

text \<open>The \<open>catch\<close> and the \<open>finally\<close> of \<open>handleSubmit\<close>.\<close>

definition handleSubmit_settle :: "SubmitClock \<Rightarrow> AppState \<times> error option \<Rightarrow> AppState" where
  "handleSubmit_settle clk r =
     (let s1 = (case snd r of
                  None \<Rightarrow> fst r
                | Some err \<Rightarrow> (fst r)\<lparr> messages := messages (fst r) @ [errorMessage clk] \<rparr>)
      in s1\<lparr> isLoading := False \<rparr>)"

text \<open>A whole \<open>handleSubmit\<close> during which no other handler runs.\<close>

definition handleSubmit :: "SubmitClock \<Rightarrow> Remote \<Rightarrow> AppState \<Rightarrow> AppState" where
  "handleSubmit clk remote s =
     (if submitRejected s then s
      else
        (let s1 = handleSubmit_begin clk s;
             r = sendMessageStream remote (msg_text (userMessage clk s)) (attachments s)
                   (onChunk (aiMessageId clk) (aiMessagePlaceholder clk)) ([], s1)
         in handleSubmit_settle clk (snd (fst r), snd r)))"

text \<open>
  The state the component starts in, before its mount effects run: the initial value of
  every \<open>useState\<close>, no chat session and no request sent.
\<close>

definition initialState :: AppState where
  "initialState =
     \<lparr> messages = [], inputText = [], attachments = [], isLoading = False,
       useThinking = False, suggestions = [], isSidebarOpen = True, history = [],
       activeChatId = None, hasStarted = False, chatSession = None, sent = [],
       renderError = None \<rparr>"

section \<open>Vocabulary of the properties\<close>

text \<open>The increments that reach the callback: the non-empty chunk texts, in order.\<close>

definition delivered :: "jsstring option list \<Rightarrow> jsstring list" where
  "delivered cs = filter (\<lambda>t. t \<noteq> []) (map (\<lambda>c. case c of None \<Rightarrow> [] | Some t \<Rightarrow> t) cs)"

definition streamError :: "StreamEnd \<Rightarrow> error option" where
  "streamError e = (case e of Done \<Rightarrow> None | Throws \<Rightarrow> Some RemoteError)"

text \<open>The request an accepted submit sends.\<close>

definition request :: "SubmitClock \<Rightarrow> AppState \<Rightarrow> MessageContent" where
  "request clk s = buildMessageContent (msg_text (userMessage clk s)) (attachments s)"

text \<open>Reading a decimal numeral back, to tell two ids apart.\<close>

definition parseDecimal :: "jsstring \<Rightarrow> nat" where
  "parseDecimal s = foldl (\<lambda>a c. 10 * a + (unat c - 48)) 0 s"

text \<open>
  A sequence of saves: each one is \<open>saveCurrentSession\<close> run with its own clock
  readings on the conversation id and timeline that are live at that moment.
\<close>

fun saveSequence :: "(nat \<times> nat \<times> jsstring option \<times> Message list) list \<Rightarrow> AppState \<Rightarrow> AppState" where
  "saveSequence [] s = s"
| "saveSequence ((nowId, nowTs, chatId, msgs) # rest) s =
     saveSequence rest (saveCurrentSession nowId nowTs (s\<lparr> activeChatId := chatId, messages := msgs \<rparr>))"

text \<open>The base64 alphabet with its padding: letters, digits, \<open>+\<close>, \<open>/\<close> and \<open>=\<close>.\<close>

definition isBase64 :: "jschar \<Rightarrow> bool" where
  "isBase64 c \<longleftrightarrow>
     (0x41 \<le> c \<and> c \<le> 0x5A) \<or> (0x61 \<le> c \<and> c \<le> 0x7A) \<or> (0x30 \<le> c \<and> c \<le> 0x39)
       \<or> c = 0x2B \<or> c = 0x2F \<or> c = 0x3D"

text \<open>
  The item a save writes, and the function the history updater maps over the collection
  when the id is already there.
\<close>

definition savedItem :: "nat \<Rightarrow> nat \<Rightarrow> AppState \<Rightarrow> ChatHistoryItem" where
  "savedItem nowId nowTs s =
     \<lparr> item_id = sessionChatId nowId s,
       item_title = sessionTitle (msg_text (hd (messages s))),
       item_messages = messages s,
       item_timestamp = nowTs \<rparr>"

definition replaceItem :: "jsstring \<Rightarrow> ChatHistoryItem \<Rightarrow> ChatHistoryItem \<Rightarrow> ChatHistoryItem" where
  "replaceItem chatId newItem item = (if item_id item = chatId then newItem else item)"

section \<open>Concrete inputs\<close>

text \<open>
  A clock, a second clock that never goes backwards and whose last reading is one more
  than the reading taken for the placeholder's id, a state in which the user has typed
  \<open>hi\<close> between blanks, and four remote endpoints: one that streams \<open>Hel\<close>, a chunk without text, an empty chunk and \<open>lo!\<close>,
  one that ends at once, one that rejects at once, and one that rejects after \<open>Hel\<close>.
\<close>

definition exampleClock :: SubmitClock where
  "exampleClock =
     \<lparr> nowChatId = 1000, nowUserId = 1000, nowUserTs = 1000, nowAiId = 1001, nowAiTs = 1001,
       nowErrId = 1007, nowErrTs = 1007 \<rparr>"

definition collidingClock :: SubmitClock where
  "collidingClock =
     \<lparr> nowChatId = 1000, nowUserId = 1000, nowUserTs = 1000, nowAiId = 1001, nowAiTs = 1001,
       nowErrId = 1002, nowErrTs = 1002 \<rparr>"

definition typedHi :: AppState where
  "typedHi = initialState\<lparr> inputText := ascii '' hi '' \<rparr>"

definition helloRemote :: Remote where
  "helloRemote req =
     \<lparr> chunks = [Some (ascii ''Hel''), None, Some [], Some (ascii ''lo!'')], ending = Done \<rparr>"

definition silentRemote :: Remote where
  "silentRemote req = \<lparr> chunks = [], ending = Done \<rparr>"

definition failingRemote :: Remote where
  "failingRemote req = \<lparr> chunks = [], ending = Throws \<rparr>"

definition brokenRemote :: Remote where
  "brokenRemote req = \<lparr> chunks = [Some (ascii ''Hel'')], ending = Throws \<rparr>"

text \<open>A stored conversation with one message, to navigate to.\<close>

definition otherMessage :: Message where
  "otherMessage =
     \<lparr> msg_id = ascii ''500'', msg_text = ascii ''an older question'', msg_sender = User,
       msg_timestamp = 500, msg_isThinking = None, msg_attachments = Some [] \<rparr>"

definition otherItem :: ChatHistoryItem where
  "otherItem =
     \<lparr> item_id = ascii ''499'', item_title = ascii ''an older question'',
       item_messages = [otherMessage], item_timestamp = 600 \<rparr>"

text \<open>
  An image attachment, a state with that attachment pending and nothing typed, a first
  question of 41 code units, and a conversation reopened from a history of two items.
\<close>

definition pngAttachment :: Attachment where
  "pngAttachment = \<lparr> mimeType = ascii ''image/png'', data = ascii ''iVBORw=='', fileName = ascii ''a.png'' \<rparr>"

definition attachedOnly :: AppState where
  "attachedOnly = initialState\<lparr> attachments := [pngAttachment] \<rparr>"

definition longQuestion :: jsstring where
  "longQuestion = ascii ''How do I reverse a linked list in Python?''"

definition replyMessage :: Message where
  "replyMessage =
     \<lparr> msg_id = ascii ''501'', msg_text = ascii ''an older answer'', msg_sender = AI,
       msg_timestamp = 501, msg_isThinking = None, msg_attachments = None \<rparr>"

definition newerItem :: ChatHistoryItem where
  "newerItem =
     \<lparr> item_id = ascii ''777'', item_title = ascii ''a newer question'',
       item_messages = [otherMessage\<lparr> msg_id := ascii ''777'', msg_text := ascii ''a newer question'' \<rparr>],
       item_timestamp = 800 \<rparr>"

definition reopened :: AppState where
  "reopened =
     initialState\<lparr> messages := [otherMessage, replyMessage], activeChatId := Some (ascii ''499''),
                   history := [newerItem, otherItem] \<rparr>"

section \<open>Decimal ids\<close>

lemma unat_digit: "d < 10 \<Longrightarrow> unat (digit d) - 48 = d"
proof -
  assume d: "d < 10"
  have "unat (of_nat (48 + d) :: 16 word) = (48 + d) mod 2 ^ LENGTH(16)"
    by (rule unat_of_nat)
  with d show ?thesis
    unfolding digit_def by simp
qed

lemma parseDecimal_toString: "parseDecimal (toString n) = n"
proof (induction n rule: toString.induct)
  case (1 n)
  show ?case
  proof (cases "n < 10")
    case True
    then show ?thesis
      by (subst toString.simps) (simp add: parseDecimal_def unat_digit)
  next
    case False
    with 1 have "parseDecimal (toString (n div 10)) = n div 10" by simp
    with False show ?thesis
      by (subst toString.simps) (simp add: parseDecimal_def unat_digit)
  qed
qed

lemma toString_inj: "toString a = toString b \<Longrightarrow> a = b"
  by (metis parseDecimal_toString)

lemma userMessage_id_neq:
  "nowUserId clk \<le> nowAiId clk \<Longrightarrow> msg_id (userMessage clk s) \<noteq> aiMessageId clk"
proof
  assume le: "nowUserId clk \<le> nowAiId clk"
    and eq: "msg_id (userMessage clk s) = aiMessageId clk"
  from eq have "toString (nowUserId clk) = toString (nowAiId clk + 1)"
    by (simp add: userMessage_def aiMessageId_def)
  then have "nowUserId clk = nowAiId clk + 1" by (rule toString_inj)
  with le show False by simp
qed

section \<open>Folding a stream into the timeline\<close>

lemma delivered_simps [simp]:
  "delivered [] = []"
  "delivered (None # cs) = delivered cs"
  "delivered (Some [] # cs) = delivered cs"
  "t \<noteq> [] \<Longrightarrow> delivered (Some t # cs) = t # delivered cs"
  by (simp_all add: delivered_def)

lemma onChunk_nonempty:
  "messages s \<noteq> [] \<Longrightarrow>
   onChunk aiId ph c (acc, s) =
     (if msg_id (last (messages s)) = aiId
      then ((acc @ c, s\<lparr> messages := butlast (messages s) @ [(last (messages s))\<lparr> msg_text := acc @ c \<rparr>] \<rparr>), None)
      else ((acc @ c, s\<lparr> messages := messages s @ [ph\<lparr> msg_text := acc @ c \<rparr>] \<rparr>), None))"
  by (cases "messages s") (simp_all add: onChunk_def Let_def)

text \<open>Once the last message carries the placeholder's id, every increment rewrites its text.\<close>

lemma forAwait_replace:
  "messages s = pre @ [m] \<Longrightarrow> msg_id m = aiId \<Longrightarrow>
   forAwait (onChunk aiId ph) cs e (acc, s) =
     ((acc @ concat (delivered cs),
       s\<lparr> messages := pre @ [if delivered cs = [] then m
                               else m\<lparr> msg_text := acc @ concat (delivered cs) \<rparr>] \<rparr>),
      streamError e)"
proof (induction cs arbitrary: acc s m)
  case Nil
  then show ?case by (simp add: streamError_def)
next
  case (Cons c cs)
  show ?case
  proof (cases c)
    case None
    with Cons show ?thesis by simp
  next
    case (Some t)
    show ?thesis
    proof (cases "t = []")
      case True
      with Some Cons show ?thesis by simp
    next
      case False
      let ?m' = "m\<lparr> msg_text := acc @ t \<rparr>"
      let ?s' = "s\<lparr> messages := pre @ [?m'] \<rparr>"
      have step: "onChunk aiId ph t (acc, s) = ((acc @ t, ?s'), None)"
        using Cons.prems by (simp add: onChunk_nonempty)
      have "forAwait (onChunk aiId ph) cs e (acc @ t, ?s') =
              (((acc @ t) @ concat (delivered cs),
                ?s'\<lparr> messages := pre @ [if delivered cs = [] then ?m'
                     else ?m'\<lparr> msg_text := (acc @ t) @ concat (delivered cs) \<rparr>] \<rparr>),
               streamError e)"
        using Cons.prems by (intro Cons.IH) simp_all
      with Some False step show ?thesis by simp
    qed
  qed
qed

text \<open>
  While the last message carries another id, the first increment appends the
  placeholder and the later ones rewrite it.
\<close>

lemma forAwait_append:
  "messages s = pre @ [u] \<Longrightarrow> msg_id u \<noteq> aiId \<Longrightarrow> msg_id ph = aiId \<Longrightarrow>
   forAwait (onChunk aiId ph) cs e (acc, s) =
     ((acc @ concat (delivered cs),
       s\<lparr> messages := pre @ [u] @ (if delivered cs = [] then []
                               else [ph\<lparr> msg_text := acc @ concat (delivered cs) \<rparr>]) \<rparr>),
      streamError e)"
proof (induction cs arbitrary: acc)
  case Nil
  then show ?case by (simp add: streamError_def)
next
  case (Cons c cs)
  show ?case
  proof (cases c)
    case None
    with Cons show ?thesis by simp
  next
    case (Some t)
    show ?thesis
    proof (cases "t = []")
      case True
      with Some Cons show ?thesis by simp
    next
      case False
      let ?m' = "ph\<lparr> msg_text := acc @ t \<rparr>"
      let ?s' = "s\<lparr> messages := (pre @ [u]) @ [?m'] \<rparr>"
      have step: "onChunk aiId ph t (acc, s) = ((acc @ t, ?s'), None)"
        using Cons.prems by (simp add: onChunk_nonempty)
      have "forAwait (onChunk aiId ph) cs e (acc @ t, ?s') =
              (((acc @ t) @ concat (delivered cs),
                ?s'\<lparr> messages := (pre @ [u]) @ [if delivered cs = [] then ?m'
                     else ?m'\<lparr> msg_text := (acc @ t) @ concat (delivered cs) \<rparr>] \<rparr>),
               streamError e)"
        using Cons.prems by (intro forAwait_replace) simp_all
      with Some False step show ?thesis by simp
    qed
  qed
qed

lemma sendMessageStream_run:
  assumes "messages s = pre @ [u]" "msg_id u \<noteq> aiId" "msg_id ph = aiId"
  shows "sendMessageStream remote txt atts (onChunk aiId ph) ([], s) =
     ((concat (delivered (chunks (remote (buildMessageContent txt atts)))),
       s\<lparr> chatSession := (if chatSession s = None then Some (initializeChat False) else chatSession s),
           sent := sent s @ [buildMessageContent txt atts],
           messages := pre @ [u] @
             (if delivered (chunks (remote (buildMessageContent txt atts))) = [] then []
              else [ph\<lparr> msg_text := concat (delivered (chunks (remote (buildMessageContent txt atts)))) \<rparr>]) \<rparr>),
      streamError (ending (remote (buildMessageContent txt atts))))"
proof -
  let ?s1 = "if chatSession s = None then s\<lparr> chatSession := Some (initializeChat False) \<rparr> else s"
  let ?s2 = "?s1\<lparr> sent := sent ?s1 @ [buildMessageContent txt atts] \<rparr>"
  have m: "messages ?s2 = pre @ [u]" using assms(1) by simp
  have "sendMessageStream remote txt atts (onChunk aiId ph) ([], s) =
          forAwait (onChunk aiId ph) (chunks (remote (buildMessageContent txt atts)))
            (ending (remote (buildMessageContent txt atts))) ([], ?s2)"
    by (cases "chatSession s") (simp_all add: sendMessageStream_def Let_def)
  also have "\<dots> = ((concat (delivered (chunks (remote (buildMessageContent txt atts)))),
       ?s2\<lparr> messages := pre @ [u] @
             (if delivered (chunks (remote (buildMessageContent txt atts))) = [] then []
              else [ph\<lparr> msg_text := concat (delivered (chunks (remote (buildMessageContent txt atts)))) \<rparr>]) \<rparr>),
      streamError (ending (remote (buildMessageContent txt atts))))"
    using forAwait_append [OF m assms(2) assms(3), of "chunks (remote (buildMessageContent txt atts))" "ending (remote (buildMessageContent txt atts))" "[]"]
    by simp
  finally show ?thesis by simp
qed

text \<open>The timeline after a whole accepted submit, whatever the stream does.\<close>

lemma handleSubmit_messages:
  assumes "\<not> submitRejected s" "nowUserId clk \<le> nowAiId clk"
  shows "messages (handleSubmit clk remote s) =
           messages s @ [userMessage clk s] @
           (if delivered (chunks (remote (request clk s))) = [] then []
            else [(aiMessagePlaceholder clk)\<lparr> msg_text := concat (delivered (chunks (remote (request clk s)))) \<rparr>]) @
           (case ending (remote (request clk s)) of Done \<Rightarrow> [] | Throws \<Rightarrow> [errorMessage clk])"
proof -
  have m: "messages (handleSubmit_begin clk s) = messages s @ [userMessage clk s]"
    by (simp add: handleSubmit_begin_def Let_def)
  have p: "msg_id (aiMessagePlaceholder clk) = aiMessageId clk"
    by (simp add: aiMessagePlaceholder_def)
  note run = sendMessageStream_run [OF m userMessage_id_neq [OF assms(2)] p]
  show ?thesis
    using assms(1)
    by (cases "ending (remote (request clk s))")
       (simp_all add: handleSubmit_def Let_def run handleSubmit_settle_def request_def streamError_def)
qed

lemma handleSubmit_isLoading:
  "\<not> submitRejected s \<Longrightarrow> isLoading (handleSubmit clk remote s) = False"
  by (simp add: handleSubmit_def Let_def handleSubmit_settle_def)

lemma delivered_append: "delivered (cs @ ds) = delivered cs @ delivered ds"
  by (simp add: delivered_def)

lemma handleSubmit_begin_messages:
  "messages (handleSubmit_begin clk s) = messages s @ [userMessage clk s]"
  by (simp add: handleSubmit_begin_def Let_def)

lemma aiMessagePlaceholder_id: "msg_id (aiMessagePlaceholder clk) = aiMessageId clk"
  by (simp add: aiMessagePlaceholder_def)

lemma loadHistoryItem_messages:
  "messages (loadHistoryItem w nowId nowTs item s) = item_messages item"
  by (simp add: loadHistoryItem_def Let_def)

text \<open>
  The callback writes \<open>messages\<close> and \<open>renderError\<close> only: whatever reads neither is kept.
\<close>

lemma onChunk_frame:
  assumes "\<And>s ms. g (s\<lparr> messages := ms \<rparr>) = g s"
    and "\<And>s err. g (s\<lparr> renderError := err \<rparr>) = g s"
  shows "g (snd (fst (onChunk aiId ph c st))) = g (snd st)"
  by (cases "messages (snd st)") (simp_all add: onChunk_def Let_def assms)

lemma forAwait_frame:
  assumes "\<And>s ms. g (s\<lparr> messages := ms \<rparr>) = g s"
    and "\<And>s err. g (s\<lparr> renderError := err \<rparr>) = g s"
  shows "g (snd (fst (forAwait (onChunk aiId ph) cs e st))) = g (snd st)"
proof (induction cs arbitrary: st)
  case Nil
  then show ?case by simp
next
  case (Cons c cs)
  show ?case
  proof (cases c)
    case None
    with Cons show ?thesis by simp
  next
    case (Some t)
    obtain st' err where step: "onChunk aiId ph t st = (st', err)"
      by (cases "onChunk aiId ph t st")
    from onChunk_frame [of g aiId ph t st, OF assms] step
    have f1: "g (snd st') = g (snd st)" by simp
    show ?thesis
    proof (cases "t \<noteq> [] \<and> err = None")
      case True
      with Some step f1 Cons [of st'] show ?thesis by simp
    next
      case False
      with Some step f1 Cons [of st] show ?thesis
        by (cases err) auto
    qed
  qed
qed

lemma forAwait_sent:
  "sent (snd (fst (forAwait (onChunk aiId ph) cs e st))) = sent (snd st)"
  by (rule forAwait_frame) simp_all

lemma forAwait_history:
  "history (snd (fst (forAwait (onChunk aiId ph) cs e st))) = history (snd st)"
  by (rule forAwait_frame) simp_all

lemma handleSubmit_history: "history (handleSubmit clk remote s) = history s"
  by (cases "chatSession (handleSubmit_begin clk s)")
     (simp_all add: handleSubmit_def Let_def handleSubmit_settle_def sendMessageStream_def
        forAwait_history handleSubmit_begin_def split: option.splits)

section \<open>Splitting at the comma\<close>

lemma split_no_sep: "sep \<notin> set s \<Longrightarrow> split sep s = [s]"
  by (induction s) auto

lemma split_prefix: "sep \<notin> set pre \<Longrightarrow> split sep (pre @ sep # rest) = pre # split sep rest"
  by (induction pre) auto

lemma isBase64_not_comma: "isBase64 c \<Longrightarrow> c \<noteq> comma"
  by (auto simp add: isBase64_def comma_def)

section \<open>The history updater\<close>

lemma saveCurrentSession_history:
  "messages s \<noteq> [] \<Longrightarrow>
   history (saveCurrentSession nowId nowTs s) =
     upsertHistory (sessionChatId nowId s) (savedItem nowId nowTs s) (history s)"
  by (cases "messages s") (simp_all add: saveCurrentSession_def Let_def savedItem_def)

lemma savedItem_id: "item_id (savedItem nowId nowTs s) = sessionChatId nowId s"
  by (simp add: savedItem_def)

lemma upsertHistory_present:
  "chatId \<in> set (map item_id prev) \<Longrightarrow>
   upsertHistory chatId newItem prev = map (replaceItem chatId newItem) prev"
proof -
  assume "chatId \<in> set (map item_id prev)"
  then have "find (\<lambda>item. item_id item = chatId) prev \<noteq> None"
    by (auto simp add: find_None_iff)
  then show ?thesis
    by (auto simp add: upsertHistory_def replaceItem_def split: option.splits)
qed

lemma upsertHistory_absent:
  "chatId \<notin> set (map item_id prev) \<Longrightarrow> upsertHistory chatId newItem prev = newItem # prev"
proof -
  assume "chatId \<notin> set (map item_id prev)"
  then have "find (\<lambda>item. item_id item = chatId) prev = None"
    by (auto simp add: find_None_iff)
  then show ?thesis
    by (simp add: upsertHistory_def)
qed

lemma map_id_replaceItem:
  "item_id newItem = chatId \<Longrightarrow> map item_id (map (replaceItem chatId newItem) prev) = map item_id prev"
  by (induction prev) (simp_all add: replaceItem_def)

lemma find_upsertHistory:
  "item_id newItem = chatId \<Longrightarrow>
   find (\<lambda>item. item_id item = chatId) (upsertHistory chatId newItem prev) = Some newItem"
proof -
  assume n: "item_id newItem = chatId"
  have "find (\<lambda>item. item_id item = chatId) prev \<noteq> None \<Longrightarrow>
        find (\<lambda>item. item_id item = chatId)
          (map (\<lambda>item. if item_id item = chatId then newItem else item) prev) = Some newItem"
    using n by (induction prev) auto
  with n show ?thesis
    by (auto simp add: upsertHistory_def split: option.splits)
qed

lemma distinct_upsertHistory:
  assumes "item_id newItem = chatId" and "distinct (map item_id prev)"
  shows "distinct (map item_id (upsertHistory chatId newItem prev))"
proof (cases "chatId \<in> set (map item_id prev)")
  case True
  with assms show ?thesis
    by (simp only: upsertHistory_present map_id_replaceItem)
next
  case False
  with assms show ?thesis
    by (simp add: upsertHistory_absent)
qed

lemma filter_of_find:
  "distinct (map f xs) \<Longrightarrow> find (\<lambda>y. f y = k) xs = Some x \<Longrightarrow> filter (\<lambda>y. f y = k) xs = [x]"
proof (induction xs)
  case Nil
  then show ?case by simp
next
  case (Cons a xs)
  show ?case
  proof (cases "f a = k")
    case True
    with Cons.prems have "a = x" and "k \<notin> f ` set xs" by auto
    then have "filter (\<lambda>y. f y = k) xs = []"
      by (auto simp add: filter_empty_conv)
    with True \<open>a = x\<close> show ?thesis by simp
  next
    case False
    with Cons show ?thesis by simp
  qed
qed

lemma saveCurrentSession_distinct:
  "distinct (map item_id (history s)) \<Longrightarrow>
   distinct (map item_id (history (saveCurrentSession nowId nowTs s)))"
proof (cases "messages s = []")
  case True
  assume "distinct (map item_id (history s))"
  with True show ?thesis by (simp add: saveCurrentSession_def)
next
  case False
  assume "distinct (map item_id (history s))"
  with False show ?thesis
    by (simp add: saveCurrentSession_history distinct_upsertHistory [OF savedItem_id])
qed

lemma saveSequence_distinct:
  "distinct (map item_id (history s)) \<Longrightarrow> distinct (map item_id (history (saveSequence saves s)))"
proof (induction saves arbitrary: s)
  case Nil
  then show ?case by simp
next
  case (Cons x saves)
  obtain nowId nowTs chatId msgs where x: "x = (nowId, nowTs, chatId, msgs)"
    by (cases x)
  have "distinct (map item_id (history (saveCurrentSession nowId nowTs
          (s\<lparr> activeChatId := chatId, messages := msgs \<rparr>))))"
    using Cons.prems by (intro saveCurrentSession_distinct) simp
  then show ?case
    unfolding x by (simp add: Cons.IH)
qed

section \<open>The concrete inputs are accepted\<close>

lemma typedHi_accepted: "\<not> submitRejected typedHi"
  by (simp add: submitRejected_def typedHi_def initialState_def trim_def ascii_def isWhiteSpace_def)

lemma typedHi_messages: "messages typedHi = []"
  by (simp add: typedHi_def initialState_def)

lemma exampleClock_ok: "nowUserId exampleClock \<le> nowAiId exampleClock"
  by (simp add: exampleClock_def)

lemma collidingClock_ok: "nowUserId collidingClock \<le> nowAiId collidingClock"
  by (simp add: collidingClock_def)

lemma otherItem_messages: "item_messages otherItem = [otherMessage]"
  by (simp add: otherItem_def)

lemma otherMessage_id_neq: "msg_id otherMessage \<noteq> aiMessageId exampleClock"
proof
  assume "msg_id otherMessage = aiMessageId exampleClock"
  then have "ascii ''500'' = toString 1002"
    by (simp add: otherMessage_def aiMessageId_def exampleClock_def)
  then have "parseDecimal (ascii ''500'') = parseDecimal (toString 1002)"
    by simp
  then show False
    by (simp add: parseDecimal_toString) (simp add: parseDecimal_def ascii_def)
qed

lemma toString_2000: "toString 2000 = ascii ''2000''"
  by (simp add: toString.simps digit_def ascii_def)

section \<open>A successful submit\<close>

text \<open>
  C1, as the code has it. An accepted submit whose stream ends normally, run with a clock
  that does not go backwards between the user message's id and the placeholder's: when at
  least one non-empty increment arrives, the timeline grows by exactly two messages, the
  User message and one AI message whose text is the concatenation of the non-empty
  increments in arrival order; when none arrives, it grows by the User message alone.
  \<open>isLoading\<close> is false afterwards.
\<close>

theorem submit_success_timeline:
  assumes "\<not> submitRejected s" and "nowUserId clk \<le> nowAiId clk"
    and "ending (remote (request clk s)) = Done"
  shows "(delivered (chunks (remote (request clk s))) \<noteq> [] \<longrightarrow>
            messages (handleSubmit clk remote s) =
              messages s @ [userMessage clk s,
                (aiMessagePlaceholder clk)\<lparr> msg_text := concat (delivered (chunks (remote (request clk s)))) \<rparr>]
            \<and> length (messages (handleSubmit clk remote s)) = length (messages s) + 2)
       \<and> (delivered (chunks (remote (request clk s))) = [] \<longrightarrow>
            messages (handleSubmit clk remote s) = messages s @ [userMessage clk s]
            \<and> length (messages (handleSubmit clk remote s)) = length (messages s) + 1)
       \<and> \<not> isLoading (handleSubmit clk remote s)"
  using handleSubmit_messages [OF assms(1) assms(2), of remote] assms(3)
    handleSubmit_isLoading [OF assms(1), of clk remote]
  by simp

theorem submit_success_timeline_witness:
  "\<not> submitRejected typedHi \<and> nowUserId exampleClock \<le> nowAiId exampleClock
   \<and> ending (helloRemote (request exampleClock typedHi)) = Done
   \<and> messages (handleSubmit exampleClock helloRemote typedHi) =
       [userMessage exampleClock typedHi,
        (aiMessagePlaceholder exampleClock)\<lparr> msg_text := ascii ''Hello!'' \<rparr>]
   \<and> length (messages (handleSubmit exampleClock helloRemote typedHi)) = length (messages typedHi) + 2"
proof -
  have e: "ending (helloRemote (request exampleClock typedHi)) = Done"
    by (simp add: helloRemote_def)
  have d: "delivered (chunks (helloRemote (request exampleClock typedHi))) = [ascii ''Hel'', ascii ''lo!'']"
    by (simp add: helloRemote_def ascii_def)
  have c: "ascii ''Hel'' @ ascii ''lo!'' = ascii ''Hello!''"
    by (simp add: ascii_def)
  from submit_success_timeline [where s = typedHi and clk = exampleClock and remote = helloRemote,
      OF typedHi_accepted exampleClock_ok e] d typedHi_messages c
  show ?thesis
    by (simp add: typedHi_accepted exampleClock_ok e)
qed

text \<open>
  C1 as stated fails when no increment arrives: the stream of \<open>silentRemote\<close> ends
  normally and the timeline has grown by one message, not two.
\<close>

theorem submit_without_increment_counterexample:
  "ending (silentRemote (request exampleClock typedHi)) = Done
   \<and> length (messages (handleSubmit exampleClock silentRemote typedHi)) \<noteq> length (messages typedHi) + 2"
proof -
  from handleSubmit_messages [OF typedHi_accepted exampleClock_ok, of silentRemote] typedHi_messages
  show ?thesis
    by (simp add: silentRemote_def)
qed

section \<open>The placeholder\<close>

text \<open>
  C7, as the code has it. Right after an accepted submit the timeline is the old one
  followed by the new User message, with no AI placeholder. With a clock that does not go
  backwards between the user message's id and the placeholder's: while the stream has
  delivered no non-empty increment the timeline stays so, and the first non-empty
  increment appends the placeholder, carrying that increment. A submit whose stream ends
  normally without a non-empty increment leaves no AI message behind; one whose stream
  fails without a non-empty increment leaves one AI message, the error notice.
\<close>

theorem placeholder_appended_by_first_increment:
  assumes "\<not> submitRejected s" and "nowUserId clk \<le> nowAiId clk"
  shows "messages (handleSubmit_begin clk s) = messages s @ [userMessage clk s]
       \<and> (delivered cs = [] \<longrightarrow>
            messages (snd (fst (forAwait (onChunk (aiMessageId clk) (aiMessagePlaceholder clk)) cs e
                                  ([], handleSubmit_begin clk s)))) =
              messages s @ [userMessage clk s])
       \<and> (delivered cs = [] \<and> t \<noteq> [] \<longrightarrow>
            messages (snd (fst (forAwait (onChunk (aiMessageId clk) (aiMessagePlaceholder clk)) (cs @ [Some t]) e
                                  ([], handleSubmit_begin clk s)))) =
              messages s @ [userMessage clk s, (aiMessagePlaceholder clk)\<lparr> msg_text := t \<rparr>])
       \<and> (delivered (chunks (remote (request clk s))) = [] \<and> ending (remote (request clk s)) = Done \<longrightarrow>
            messages (handleSubmit clk remote s) = messages s @ [userMessage clk s])
       \<and> (delivered (chunks (remote (request clk s))) = [] \<and> ending (remote (request clk s)) = Throws \<longrightarrow>
            messages (handleSubmit clk remote s) = messages s @ [userMessage clk s, errorMessage clk])"
proof -
  note run = forAwait_append [OF handleSubmit_begin_messages [of clk s]
      userMessage_id_neq [OF assms(2), of s] aiMessagePlaceholder_id [of clk]]
  have a: "delivered cs = [] \<longrightarrow>
            messages (snd (fst (forAwait (onChunk (aiMessageId clk) (aiMessagePlaceholder clk)) cs e
                                  ([], handleSubmit_begin clk s)))) =
              messages s @ [userMessage clk s]"
    by (simp add: run)
  have b: "delivered cs = [] \<and> t \<noteq> [] \<longrightarrow>
            messages (snd (fst (forAwait (onChunk (aiMessageId clk) (aiMessagePlaceholder clk)) (cs @ [Some t]) e
                                  ([], handleSubmit_begin clk s)))) =
              messages s @ [userMessage clk s, (aiMessagePlaceholder clk)\<lparr> msg_text := t \<rparr>]"
    by (simp add: run delivered_append)
  have c: "delivered (chunks (remote (request clk s))) = [] \<and> ending (remote (request clk s)) = Done \<longrightarrow>
            messages (handleSubmit clk remote s) = messages s @ [userMessage clk s]"
    using handleSubmit_messages [OF assms, of remote] by simp
  have d: "delivered (chunks (remote (request clk s))) = [] \<and> ending (remote (request clk s)) = Throws \<longrightarrow>
            messages (handleSubmit clk remote s) = messages s @ [userMessage clk s, errorMessage clk]"
    using handleSubmit_messages [OF assms, of remote] by simp
  from handleSubmit_begin_messages a b c d show ?thesis by blast
qed

theorem placeholder_appended_by_first_increment_witness:
  "\<not> submitRejected typedHi \<and> nowUserId exampleClock \<le> nowAiId exampleClock
   \<and> messages (handleSubmit_begin exampleClock typedHi) = [userMessage exampleClock typedHi]
   \<and> messages (snd (fst (forAwait (onChunk (aiMessageId exampleClock) (aiMessagePlaceholder exampleClock))
        [None, Some []] Done ([], handleSubmit_begin exampleClock typedHi)))) = [userMessage exampleClock typedHi]
   \<and> messages (snd (fst (forAwait (onChunk (aiMessageId exampleClock) (aiMessagePlaceholder exampleClock))
        ([None, Some []] @ [Some (ascii ''Hel'')]) Done ([], handleSubmit_begin exampleClock typedHi)))) =
       [userMessage exampleClock typedHi, (aiMessagePlaceholder exampleClock)\<lparr> msg_text := ascii ''Hel'' \<rparr>]
   \<and> messages (handleSubmit exampleClock silentRemote typedHi) = [userMessage exampleClock typedHi]
   \<and> messages (handleSubmit collidingClock failingRemote typedHi) =
       [userMessage collidingClock typedHi, errorMessage collidingClock]"
proof -
  have t: "ascii ''Hel'' \<noteq> []" by (simp add: ascii_def)
  have d: "delivered [None, Some []] = []" by simp
  have r: "delivered (chunks (silentRemote (request exampleClock typedHi))) = []
           \<and> ending (silentRemote (request exampleClock typedHi)) = Done"
    by (simp add: silentRemote_def)
  have f: "delivered (chunks (failingRemote (request collidingClock typedHi))) = []
           \<and> ending (failingRemote (request collidingClock typedHi)) = Throws"
    by (simp add: failingRemote_def)
  from placeholder_appended_by_first_increment [where s = typedHi and clk = exampleClock
      and cs = "[None, Some []]" and t = "ascii ''Hel''" and e = Done and remote = silentRemote,
      OF typedHi_accepted exampleClock_ok] t d r typedHi_messages
  have 1: "messages (handleSubmit_begin exampleClock typedHi) = [userMessage exampleClock typedHi]
   \<and> messages (snd (fst (forAwait (onChunk (aiMessageId exampleClock) (aiMessagePlaceholder exampleClock))
        [None, Some []] Done ([], handleSubmit_begin exampleClock typedHi)))) = [userMessage exampleClock typedHi]
   \<and> messages (snd (fst (forAwait (onChunk (aiMessageId exampleClock) (aiMessagePlaceholder exampleClock))
        ([None, Some []] @ [Some (ascii ''Hel'')]) Done ([], handleSubmit_begin exampleClock typedHi)))) =
       [userMessage exampleClock typedHi, (aiMessagePlaceholder exampleClock)\<lparr> msg_text := ascii ''Hel'' \<rparr>]
   \<and> messages (handleSubmit exampleClock silentRemote typedHi) = [userMessage exampleClock typedHi]"
    by simp
  from placeholder_appended_by_first_increment [where s = typedHi and clk = collidingClock
      and cs = "[]" and t = "ascii ''Hel''" and e = Done and remote = failingRemote,
      OF typedHi_accepted collidingClock_ok] f typedHi_messages
  have 2: "messages (handleSubmit collidingClock failingRemote typedHi) =
       [userMessage collidingClock typedHi, errorMessage collidingClock]"
    by simp
  from 1 2 show ?thesis
    by (simp add: typedHi_accepted exampleClock_ok)
qed

text \<open>
  C7 as stated fails for a stream that rejects before any increment: no non-empty
  increment is delivered, and the submit has put an AI message after the User message.
\<close>

theorem failing_stream_leaves_notice_counterexample:
  "messages typedHi = []
   \<and> delivered (chunks (failingRemote (request exampleClock typedHi))) = []
   \<and> map msg_sender (messages (handleSubmit exampleClock failingRemote typedHi)) = [User, AI]"
proof -
  have s: "msg_sender (userMessage exampleClock typedHi) = User" "msg_sender (errorMessage exampleClock) = AI"
    by (simp_all add: userMessage_def errorMessage_def)
  from handleSubmit_messages [OF typedHi_accepted exampleClock_ok, of failingRemote] typedHi_messages s
  show ?thesis
    by (simp add: failingRemote_def)
qed

section \<open>A failed submit\<close>

text \<open>
  C2, as the code has it. An accepted submit whose stream fails, run with a clock that
  does not go backwards between the user message's id and the placeholder's: if at least
  one non-empty increment was delivered, the placeholder is in the timeline with the
  partial text and is followed by one appended AI message carrying the fixed error
  notice; if none was delivered there is no placeholder and the error notice follows the
  User message. The notice is an element of its own at the end of the timeline, and
  \<open>isLoading\<close> is false afterwards. Nothing is said of the notice's id.
\<close>

theorem failed_stream_timeline:
  assumes "\<not> submitRejected s" and "nowUserId clk \<le> nowAiId clk"
    and "ending (remote (request clk s)) = Throws"
  shows "(delivered (chunks (remote (request clk s))) \<noteq> [] \<longrightarrow>
            messages (handleSubmit clk remote s) =
              messages s @ [userMessage clk s,
                (aiMessagePlaceholder clk)\<lparr> msg_text := concat (delivered (chunks (remote (request clk s)))) \<rparr>,
                errorMessage clk])
       \<and> (delivered (chunks (remote (request clk s))) = [] \<longrightarrow>
            messages (handleSubmit clk remote s) = messages s @ [userMessage clk s, errorMessage clk])
       \<and> msg_sender (errorMessage clk) = AI
       \<and> msg_text (errorMessage clk) = errorNotice
       \<and> \<not> isLoading (handleSubmit clk remote s)"
proof -
  have e: "msg_sender (errorMessage clk) = AI \<and> msg_text (errorMessage clk) = errorNotice"
    by (simp add: errorMessage_def)
  from handleSubmit_messages [OF assms(1) assms(2), of remote] assms(3)
    handleSubmit_isLoading [OF assms(1), of clk remote] e
  show ?thesis by simp
qed

theorem failed_stream_timeline_witness:
  "\<not> submitRejected typedHi \<and> nowUserId exampleClock \<le> nowAiId exampleClock
   \<and> ending (brokenRemote (request exampleClock typedHi)) = Throws
   \<and> messages (handleSubmit exampleClock brokenRemote typedHi) =
       [userMessage exampleClock typedHi,
        (aiMessagePlaceholder exampleClock)\<lparr> msg_text := ascii ''Hel'' \<rparr>,
        errorMessage exampleClock]
   \<and> \<not> isLoading (handleSubmit exampleClock brokenRemote typedHi)"
proof -
  have e: "ending (brokenRemote (request exampleClock typedHi)) = Throws"
    by (simp add: brokenRemote_def)
  have d: "delivered (chunks (brokenRemote (request exampleClock typedHi))) = [ascii ''Hel'']"
    by (simp add: brokenRemote_def ascii_def)
  from failed_stream_timeline [where s = typedHi and clk = exampleClock and remote = brokenRemote,
      OF typedHi_accepted exampleClock_ok e] d typedHi_messages
  show ?thesis
    by (simp add: typedHi_accepted exampleClock_ok e)
qed

text \<open>
  C2 as stated fails twice. When the stream rejects before any increment, the timeline
  is the User message and the error notice, and no message of it carries the
  placeholder's id. When the stream rejects after an increment and the clock, which
  never goes backwards, reads in the catch one more than it read for the placeholder,
  the placeholder and the error notice are both in the timeline with the same id.
\<close>

theorem failed_stream_counterexample:
  "ending (failingRemote (request exampleClock typedHi)) = Throws
   \<and> messages (handleSubmit exampleClock failingRemote typedHi) =
       [userMessage exampleClock typedHi, errorMessage exampleClock]
   \<and> aiMessageId exampleClock \<notin> set (map msg_id (messages (handleSubmit exampleClock failingRemote typedHi)))
   \<and> ending (brokenRemote (request collidingClock typedHi)) = Throws
   \<and> nowUserId collidingClock \<le> nowAiId collidingClock
   \<and> nowAiId collidingClock \<le> nowErrId collidingClock
   \<and> messages (handleSubmit collidingClock brokenRemote typedHi) =
       [userMessage collidingClock typedHi,
        (aiMessagePlaceholder collidingClock)\<lparr> msg_text := ascii ''Hel'' \<rparr>,
        errorMessage collidingClock]
   \<and> msg_id (errorMessage collidingClock) =
       msg_id ((aiMessagePlaceholder collidingClock)\<lparr> msg_text := ascii ''Hel'' \<rparr>)"
proof -
  have a: "aiMessageId exampleClock \<noteq> msg_id (userMessage exampleClock typedHi)"
    using userMessage_id_neq [OF exampleClock_ok, of typedHi] by simp
  have b: "aiMessageId exampleClock \<noteq> msg_id (errorMessage exampleClock)"
    using toString_inj [of "nowAiId exampleClock + 1" "nowErrId exampleClock"]
    by (auto simp add: errorMessage_def aiMessageId_def exampleClock_def)
  from handleSubmit_messages [OF typedHi_accepted exampleClock_ok, of failingRemote] typedHi_messages
  have 1: "messages (handleSubmit exampleClock failingRemote typedHi) =
       [userMessage exampleClock typedHi, errorMessage exampleClock]"
    by (simp add: failingRemote_def)
  have d: "delivered (chunks (brokenRemote (request collidingClock typedHi))) = [ascii ''Hel'']"
    by (simp add: brokenRemote_def ascii_def)
  from handleSubmit_messages [OF typedHi_accepted collidingClock_ok, of brokenRemote] typedHi_messages d
  have 2: "messages (handleSubmit collidingClock brokenRemote typedHi) =
       [userMessage collidingClock typedHi,
        (aiMessagePlaceholder collidingClock)\<lparr> msg_text := ascii ''Hel'' \<rparr>,
        errorMessage collidingClock]"
    by (simp add: brokenRemote_def)
  have 3: "msg_id (errorMessage collidingClock) =
       msg_id ((aiMessagePlaceholder collidingClock)\<lparr> msg_text := ascii ''Hel'' \<rparr>)"
    by (simp add: errorMessage_def aiMessagePlaceholder_def aiMessageId_def collidingClock_def)
  have 4: "nowUserId collidingClock \<le> nowAiId collidingClock \<and> nowAiId collidingClock \<le> nowErrId collidingClock"
    by (simp add: collidingClock_def)
  from 1 2 3 4 a b show ?thesis
    by (simp add: failingRemote_def brokenRemote_def)
qed

section \<open>Increments of an abandoned stream\<close>

text \<open>
  C3, as the code has it. Increments are not scoped to the attempt that owns them. After
  the user has loaded a history item whose timeline is non-empty and does not end with
  the abandoned placeholder's id, the further increments of the abandoned stream leave
  the loaded messages in place and append to them one AI message with the abandoned
  placeholder's id, whose text is the accumulator extended by those increments; without
  a further non-empty increment the loaded timeline is unchanged.
\<close>

theorem stale_increment_appends:
  assumes "item_messages item \<noteq> []"
    and "msg_id (last (item_messages item)) \<noteq> aiMessageId clk"
  shows "messages (snd (fst (forAwait (onChunk (aiMessageId clk) (aiMessagePlaceholder clk)) cs e
                              (acc, loadHistoryItem w nowId nowTs item s)))) =
           item_messages item @
           (if delivered cs = [] then []
            else [(aiMessagePlaceholder clk)\<lparr> msg_text := acc @ concat (delivered cs) \<rparr>])"
proof -
  have m: "messages (loadHistoryItem w nowId nowTs item s) =
             butlast (item_messages item) @ [last (item_messages item)]"
    using assms(1) by (simp add: loadHistoryItem_messages)
  from forAwait_append [OF m assms(2) aiMessagePlaceholder_id [of clk], of cs e acc] assms(1)
  show ?thesis by simp
qed

theorem stale_increment_appends_witness:
  "item_messages otherItem \<noteq> []
   \<and> msg_id (last (item_messages otherItem)) \<noteq> aiMessageId exampleClock
   \<and> messages (snd (fst (forAwait (onChunk (aiMessageId exampleClock) (aiMessagePlaceholder exampleClock))
        [Some (ascii ''lo!'')] Done
        (ascii ''Hel'', loadHistoryItem 1024 1003 1003 otherItem (handleSubmit_begin exampleClock typedHi))))) =
       [otherMessage, (aiMessagePlaceholder exampleClock)\<lparr> msg_text := ascii ''Hello!'' \<rparr>]"
proof -
  have a: "item_messages otherItem \<noteq> []"
    by (simp add: otherItem_messages)
  have b: "msg_id (last (item_messages otherItem)) \<noteq> aiMessageId exampleClock"
    by (simp add: otherItem_messages otherMessage_id_neq)
  have d: "delivered [Some (ascii ''lo!'')] = [ascii ''lo!'']"
    by (simp add: ascii_def)
  have c: "ascii ''Hel'' @ ascii ''lo!'' = ascii ''Hello!''"
    by (simp add: ascii_def)
  have "messages (snd (fst (forAwait (onChunk (aiMessageId exampleClock) (aiMessagePlaceholder exampleClock))
        [Some (ascii ''lo!'')] Done
        (ascii ''Hel'', loadHistoryItem 1024 1003 1003 otherItem (handleSubmit_begin exampleClock typedHi))))) =
       [otherMessage, (aiMessagePlaceholder exampleClock)\<lparr> msg_text := ascii ''Hello!'' \<rparr>]"
    by (simp only: stale_increment_appends [OF a b] d otherItem_messages) (simp add: c)
  with a b show ?thesis by blast
qed

text \<open>
  C3 as stated fails: after \<open>loadHistoryItem\<close> during a stream, the next increment
  changes the newly active timeline.
\<close>

theorem stale_increment_counterexample:
  "messages (snd (fst (onChunk (aiMessageId exampleClock) (aiMessagePlaceholder exampleClock) (ascii ''Hel'')
       ([], loadHistoryItem 1024 1003 1003 otherItem (handleSubmit_begin exampleClock typedHi)))))
   \<noteq> messages (loadHistoryItem 1024 1003 1003 otherItem (handleSubmit_begin exampleClock typedHi))"
proof -
  have m: "messages (loadHistoryItem 1024 1003 1003 otherItem (handleSubmit_begin exampleClock typedHi)) = [otherMessage]"
    by (simp add: loadHistoryItem_messages otherItem_messages)
  then have n: "messages (loadHistoryItem 1024 1003 1003 otherItem (handleSubmit_begin exampleClock typedHi)) \<noteq> []"
    by simp
  show ?thesis
    by (simp add: onChunk_nonempty [OF n] m otherMessage_id_neq)
qed

section \<open>Rejected submits\<close>

text \<open>
  C4. When \<open>isLoading\<close> is true, or the trimmed input is empty and there is no pending
  attachment, \<open>handleSubmit\<close> returns the state it was given: the timeline, \<open>isLoading\<close>,
  the attachments, the active conversation id and the log of remote requests are
  unchanged.
\<close>

theorem rejected_submit_noop:
  assumes "isLoading s \<or> (trim (inputText s) = [] \<and> attachments s = [])"
  shows "handleSubmit clk remote s = s
       \<and> messages (handleSubmit clk remote s) = messages s
       \<and> isLoading (handleSubmit clk remote s) = isLoading s
       \<and> attachments (handleSubmit clk remote s) = attachments s
       \<and> activeChatId (handleSubmit clk remote s) = activeChatId s
       \<and> sent (handleSubmit clk remote s) = sent s"
proof -
  from assms have "submitRejected s"
    by (auto simp add: submitRejected_def)
  then have "handleSubmit clk remote s = s"
    by (simp add: handleSubmit_def)
  then show ?thesis by simp
qed

theorem rejected_submit_noop_witness:
  "isLoading (typedHi\<lparr> isLoading := True \<rparr>)
   \<and> handleSubmit exampleClock helloRemote (typedHi\<lparr> isLoading := True \<rparr>) = typedHi\<lparr> isLoading := True \<rparr>
   \<and> trim (inputText (initialState\<lparr> inputText := ascii ''  '' \<rparr>)) = []
   \<and> attachments (initialState\<lparr> inputText := ascii ''  '' \<rparr>) = []
   \<and> handleSubmit exampleClock helloRemote (initialState\<lparr> inputText := ascii ''  '' \<rparr>)
       = initialState\<lparr> inputText := ascii ''  '' \<rparr>"
proof -
  have a: "isLoading (typedHi\<lparr> isLoading := True \<rparr>)" by simp
  have b: "trim (inputText (initialState\<lparr> inputText := ascii ''  '' \<rparr>)) = []
           \<and> attachments (initialState\<lparr> inputText := ascii ''  '' \<rparr>) = []"
    by (simp add: trim_def ascii_def isWhiteSpace_def initialState_def)
  from rejected_submit_noop [of "typedHi\<lparr> isLoading := True \<rparr>" exampleClock helloRemote]
    rejected_submit_noop [of "initialState\<lparr> inputText := ascii ''  '' \<rparr>" exampleClock helloRemote] a b
  show ?thesis by simp
qed

section \<open>The request payload\<close>

text \<open>
  C5. Every run of \<open>sendMessageStream\<close> sends exactly one request, the message content it
  built. Without attachments that content is the raw text. With attachments it is a list
  of parts: one text part first, left out when the text is empty, then one inline-data
  part per attachment, in the order of the attachments, each with that attachment's
  \<open>mimeType\<close> and \<open>data\<close>.
\<close>

theorem request_payload:
  "sent (snd (fst (sendMessageStream remote txt atts (onChunk aiId ph) (acc, s)))) =
     sent s @ [buildMessageContent txt atts]
   \<and> (atts = [] \<longrightarrow> buildMessageContent txt atts = RawText txt)
   \<and> (atts \<noteq> [] \<longrightarrow>
        buildMessageContent txt atts =
          Parts ((if txt = [] then [] else [TextPart txt])
                 @ map (\<lambda>att. InlineData (mimeType att) (data att)) atts))"
proof -
  have "sent (snd (fst (sendMessageStream remote txt atts (onChunk aiId ph) (acc, s)))) =
     sent s @ [buildMessageContent txt atts]"
    by (cases "chatSession s") (simp_all add: sendMessageStream_def Let_def forAwait_sent)
  moreover have "atts = [] \<longrightarrow> buildMessageContent txt atts = RawText txt"
    by (simp add: buildMessageContent_def)
  moreover have "atts \<noteq> [] \<longrightarrow>
        buildMessageContent txt atts =
          Parts ((if txt = [] then [] else [TextPart txt])
                 @ map (\<lambda>att. InlineData (mimeType att) (data att)) atts)"
    by (simp add: buildMessageContent_def attachmentPart_def)
  ultimately show ?thesis by blast
qed

theorem request_payload_witness:
  "sent (snd (fst (sendMessageStream helloRemote (ascii ''hi'') []
        (onChunk (aiMessageId exampleClock) (aiMessagePlaceholder exampleClock)) ([], initialState)))) =
     [RawText (ascii ''hi'')]
   \<and> sent (snd (fst (sendMessageStream helloRemote [] [pngAttachment]
        (onChunk (aiMessageId exampleClock) (aiMessagePlaceholder exampleClock)) ([], initialState)))) =
     [Parts [InlineData (ascii ''image/png'') (ascii ''iVBORw=='')]]
   \<and> buildMessageContent (ascii ''hi'') [pngAttachment, pngAttachment] =
       Parts [TextPart (ascii ''hi''), InlineData (ascii ''image/png'') (ascii ''iVBORw==''),
              InlineData (ascii ''image/png'') (ascii ''iVBORw=='')]"
proof -
  have s: "sent initialState = []" by (simp add: initialState_def)
  have h: "ascii ''hi'' \<noteq> []" by (simp add: ascii_def)
  have m: "mimeType pngAttachment = ascii ''image/png''" "data pngAttachment = ascii ''iVBORw==''"
    by (simp_all add: pngAttachment_def)
  from request_payload [of helloRemote "ascii ''hi''" "[]" "aiMessageId exampleClock"
      "aiMessagePlaceholder exampleClock" "[]" initialState]
    request_payload [of helloRemote "[]" "[pngAttachment]" "aiMessageId exampleClock"
      "aiMessagePlaceholder exampleClock" "[]" initialState]
    request_payload [of helloRemote "ascii ''hi''" "[pngAttachment, pngAttachment]" "aiMessageId exampleClock"
      "aiMessagePlaceholder exampleClock" "[]" initialState] s h m
  show ?thesis by simp
qed

section \<open>Saving to the history\<close>

text \<open>
  C6. Saving an empty timeline changes nothing. Saving a non-empty one under its
  conversation id replaces the item with that id where it stands, the ids of the
  collection keeping their positions, and otherwise puts the new item in front. A
  collection with one item per id keeps one item per id through a save and through any
  sequence of saves, and after a save the only item with the saved id is the one just
  written, with that save's messages and timestamp.
\<close>

theorem save_upserts:
  "(messages s = [] \<longrightarrow> saveCurrentSession nowId nowTs s = s)
   \<and> (messages s \<noteq> [] \<and> sessionChatId nowId s \<in> set (map item_id (history s)) \<longrightarrow>
        history (saveCurrentSession nowId nowTs s) =
          map (replaceItem (sessionChatId nowId s) (savedItem nowId nowTs s)) (history s)
        \<and> map item_id (history (saveCurrentSession nowId nowTs s)) = map item_id (history s))
   \<and> (messages s \<noteq> [] \<and> sessionChatId nowId s \<notin> set (map item_id (history s)) \<longrightarrow>
        history (saveCurrentSession nowId nowTs s) = savedItem nowId nowTs s # history s)
   \<and> (messages s \<noteq> [] \<and> distinct (map item_id (history s)) \<longrightarrow>
        filter (\<lambda>item. item_id item = sessionChatId nowId s) (history (saveCurrentSession nowId nowTs s)) =
          [savedItem nowId nowTs s])
   \<and> (distinct (map item_id (history s)) \<longrightarrow>
        distinct (map item_id (history (saveCurrentSession nowId nowTs s)))
        \<and> distinct (map item_id (history (saveSequence saves s))))"
proof -
  have a: "messages s = [] \<longrightarrow> saveCurrentSession nowId nowTs s = s"
    by (simp add: saveCurrentSession_def)
  have b: "messages s \<noteq> [] \<and> sessionChatId nowId s \<in> set (map item_id (history s)) \<longrightarrow>
        history (saveCurrentSession nowId nowTs s) =
          map (replaceItem (sessionChatId nowId s) (savedItem nowId nowTs s)) (history s)
        \<and> map item_id (history (saveCurrentSession nowId nowTs s)) = map item_id (history s)"
  proof
    assume h: "messages s \<noteq> [] \<and> sessionChatId nowId s \<in> set (map item_id (history s))"
    then have "history (saveCurrentSession nowId nowTs s) =
        map (replaceItem (sessionChatId nowId s) (savedItem nowId nowTs s)) (history s)"
      by (simp add: saveCurrentSession_history upsertHistory_present)
    then show "history (saveCurrentSession nowId nowTs s) =
          map (replaceItem (sessionChatId nowId s) (savedItem nowId nowTs s)) (history s)
        \<and> map item_id (history (saveCurrentSession nowId nowTs s)) = map item_id (history s)"
      by (simp only: map_id_replaceItem [OF savedItem_id])
  qed
  have c: "messages s \<noteq> [] \<and> sessionChatId nowId s \<notin> set (map item_id (history s)) \<longrightarrow>
        history (saveCurrentSession nowId nowTs s) = savedItem nowId nowTs s # history s"
    by (simp add: saveCurrentSession_history upsertHistory_absent)
  have d: "messages s \<noteq> [] \<and> distinct (map item_id (history s)) \<longrightarrow>
        filter (\<lambda>item. item_id item = sessionChatId nowId s) (history (saveCurrentSession nowId nowTs s)) =
          [savedItem nowId nowTs s]"
  proof
    assume h: "messages s \<noteq> [] \<and> distinct (map item_id (history s))"
    then have "distinct (map item_id (history (saveCurrentSession nowId nowTs s)))"
      by (simp add: saveCurrentSession_distinct)
    moreover have "find (\<lambda>item. item_id item = sessionChatId nowId s)
        (history (saveCurrentSession nowId nowTs s)) = Some (savedItem nowId nowTs s)"
      using h by (simp add: saveCurrentSession_history find_upsertHistory [OF savedItem_id])
    ultimately show "filter (\<lambda>item. item_id item = sessionChatId nowId s)
        (history (saveCurrentSession nowId nowTs s)) = [savedItem nowId nowTs s]"
      by (rule filter_of_find)
  qed
  have e: "distinct (map item_id (history s)) \<longrightarrow>
        distinct (map item_id (history (saveCurrentSession nowId nowTs s)))
        \<and> distinct (map item_id (history (saveSequence saves s)))"
    by (simp add: saveCurrentSession_distinct saveSequence_distinct)
  from a b c d e show ?thesis by blast
qed

theorem save_upserts_witness:
  "saveCurrentSession 2000 2001 initialState = initialState
   \<and> history (saveCurrentSession 2000 2001 reopened) =
       [newerItem,
        \<lparr> item_id = ascii ''499'', item_title = ascii ''an older question'',
          item_messages = [otherMessage, replyMessage], item_timestamp = 2001 \<rparr>]
   \<and> history (saveCurrentSession 2000 2001 (reopened\<lparr> activeChatId := None \<rparr>)) =
       [\<lparr> item_id = ascii ''2000'', item_title = ascii ''an older question'',
          item_messages = [otherMessage, replyMessage], item_timestamp = 2001 \<rparr>,
        newerItem, otherItem]
   \<and> distinct (map item_id (history reopened))
   \<and> distinct (map item_id (history (saveSequence
        [(2000, 2001, None, [otherMessage]), (2002, 2003, Some (ascii ''499''), [otherMessage, replyMessage])]
        reopened)))"
proof -
  let ?fresh = "reopened\<lparr> activeChatId := None \<rparr>"
  have m0: "messages initialState = []"
    by (simp add: initialState_def)
  have m: "messages reopened \<noteq> []" "messages ?fresh \<noteq> []"
    by (simp_all add: reopened_def)
  have ids: "map item_id (history reopened) = [ascii ''777'', ascii ''499'']"
      "map item_id (history ?fresh) = [ascii ''777'', ascii ''499'']"
    by (simp_all add: reopened_def newerItem_def otherItem_def)
  have c: "sessionChatId 2000 reopened = ascii ''499''" "sessionChatId 2000 ?fresh = ascii ''2000''"
    by (simp_all add: sessionChatId_def reopened_def toString_2000) (simp add: ascii_def)
  have p: "sessionChatId 2000 reopened \<in> set (map item_id (history reopened))"
    by (simp only: ids c) simp
  have a: "sessionChatId 2000 ?fresh \<notin> set (map item_id (history ?fresh))"
    by (simp only: ids c) (simp add: ascii_def)
  have d: "distinct (map item_id (history reopened))"
    by (simp only: ids) (simp add: ascii_def)
  have n: "savedItem 2000 2001 reopened =
             \<lparr> item_id = ascii ''499'', item_title = ascii ''an older question'',
               item_messages = [otherMessage, replyMessage], item_timestamp = 2001 \<rparr>"
    by (simp add: savedItem_def c) (simp add: reopened_def otherMessage_def sessionTitle_def ascii_def)
  have n': "savedItem 2000 2001 ?fresh =
             \<lparr> item_id = ascii ''2000'', item_title = ascii ''an older question'',
               item_messages = [otherMessage, replyMessage], item_timestamp = 2001 \<rparr>"
    by (simp add: savedItem_def c) (simp add: reopened_def otherMessage_def sessionTitle_def ascii_def)
  have r: "map (replaceItem (ascii ''499'') x) (history reopened) = [newerItem, x]" for x
    by (simp add: replaceItem_def reopened_def newerItem_def otherItem_def) (simp add: ascii_def)
  have h: "history ?fresh = [newerItem, otherItem]"
    by (simp add: reopened_def)
  from save_upserts [of initialState 2000 2001 "[]"] m0
  have 1: "saveCurrentSession 2000 2001 initialState = initialState" by blast
  from save_upserts [of reopened 2000 2001
      "[(2000, 2001, None, [otherMessage]), (2002, 2003, Some (ascii ''499''), [otherMessage, replyMessage])]"]
    m(1) p d
  have 2: "history (saveCurrentSession 2000 2001 reopened) =
          map (replaceItem (sessionChatId 2000 reopened) (savedItem 2000 2001 reopened)) (history reopened)"
    and 4: "distinct (map item_id (history (saveSequence
        [(2000, 2001, None, [otherMessage]), (2002, 2003, Some (ascii ''499''), [otherMessage, replyMessage])]
        reopened)))"
    by blast+
  from save_upserts [of ?fresh 2000 2001 "[]"] m(2) a
  have 3: "history (saveCurrentSession 2000 2001 ?fresh) = savedItem 2000 2001 ?fresh # history ?fresh"
    by blast
  from 1 2 3 4 d show ?thesis
    by (simp only: c n n' r h)
qed

section \<open>The title of a saved conversation\<close>

text \<open>
  C8, as the code has it. The item saved for a non-empty timeline has a title computed
  from the first message's text: its first 30 code units followed by three dots when it
  is longer than 30, \<open>New Chat\<close> when it is empty, and the text itself otherwise.
\<close>

theorem saved_title:
  assumes "messages s = m0 # ms"
  shows "find (\<lambda>item. item_id item = sessionChatId nowId s) (history (saveCurrentSession nowId nowTs s)) =
           Some \<lparr> item_id = sessionChatId nowId s,
                  item_title =
                    (if length (msg_text m0) > 30 then take 30 (msg_text m0) @ ascii ''...''
                     else if msg_text m0 = [] then ascii ''New Chat''
                     else msg_text m0),
                  item_messages = messages s,
                  item_timestamp = nowTs \<rparr>"
proof -
  have t: "sessionTitle (msg_text m0) =
             (if length (msg_text m0) > 30 then take 30 (msg_text m0) @ ascii ''...''
              else if msg_text m0 = [] then ascii ''New Chat''
              else msg_text m0)"
    by (auto simp add: sessionTitle_def Let_def)
  show ?thesis
    using assms by (simp add: saveCurrentSession_def Let_def find_upsertHistory t)
qed

theorem saved_title_witness:
  "messages (initialState\<lparr> messages := [otherMessage\<lparr> msg_text := longQuestion \<rparr>, otherMessage] \<rparr>) =
     otherMessage\<lparr> msg_text := longQuestion \<rparr> # [otherMessage]
   \<and> find (\<lambda>item. item_id item = toString 2000)
        (history (saveCurrentSession 2000 2001
           (initialState\<lparr> messages := [otherMessage\<lparr> msg_text := longQuestion \<rparr>, otherMessage] \<rparr>))) =
       Some \<lparr> item_id = toString 2000,
              item_title = ascii ''How do I reverse a linked list...'',
              item_messages = [otherMessage\<lparr> msg_text := longQuestion \<rparr>, otherMessage],
              item_timestamp = 2001 \<rparr>
   \<and> messages (initialState\<lparr> messages := [otherMessage] \<rparr>) = otherMessage # []
   \<and> find (\<lambda>item. item_id item = toString 2000)
        (history (saveCurrentSession 2000 2001 (initialState\<lparr> messages := [otherMessage] \<rparr>))) =
       Some \<lparr> item_id = toString 2000,
              item_title = ascii ''an older question'',
              item_messages = [otherMessage],
              item_timestamp = 2001 \<rparr>"
proof -
  let ?s = "initialState\<lparr> messages := [otherMessage\<lparr> msg_text := longQuestion \<rparr>, otherMessage] \<rparr>"
  let ?t = "initialState\<lparr> messages := [otherMessage] \<rparr>"
  have m: "messages ?s = otherMessage\<lparr> msg_text := longQuestion \<rparr> # [otherMessage]"
      "messages ?t = otherMessage # []"
    by simp_all
  have i: "sessionChatId 2000 ?s = toString 2000" "sessionChatId 2000 ?t = toString 2000"
    by (simp_all add: sessionChatId_def initialState_def)
  have l: "length longQuestion > 30" "take 30 longQuestion @ ascii ''...'' = ascii ''How do I reverse a linked list...''"
    by (simp_all add: longQuestion_def ascii_def)
  have o: "\<not> length (msg_text otherMessage) > 30" "msg_text otherMessage \<noteq> []"
      "msg_text otherMessage = ascii ''an older question''"
    by (simp_all add: otherMessage_def ascii_def)
  from saved_title [OF m(1), of 2000 2001] saved_title [OF m(2), of 2000 2001] i l o
  show ?thesis by simp
qed

text \<open>
  C8 as stated fails for a first message sent with an attachment and no text: its text
  has length 0, and the saved title is not that text.
\<close>

theorem empty_text_title_counterexample:
  "messages (handleSubmit exampleClock silentRemote attachedOnly) = [userMessage exampleClock attachedOnly]
   \<and> length (msg_text (userMessage exampleClock attachedOnly)) \<le> 30
   \<and> map item_title (history (saveCurrentSession 2000 2001 (handleSubmit exampleClock silentRemote attachedOnly)))
       \<noteq> [msg_text (userMessage exampleClock attachedOnly)]"
proof -
  have r: "\<not> submitRejected attachedOnly"
    by (simp add: submitRejected_def attachedOnly_def initialState_def)
  have m: "messages (handleSubmit exampleClock silentRemote attachedOnly) = [userMessage exampleClock attachedOnly]"
    using handleSubmit_messages [OF r exampleClock_ok, of silentRemote]
    by (simp add: silentRemote_def attachedOnly_def initialState_def)
  have t: "msg_text (userMessage exampleClock attachedOnly) = []"
    by (simp add: userMessage_def attachedOnly_def initialState_def trim_def)
  have h: "history (handleSubmit exampleClock silentRemote attachedOnly) = []"
    by (simp add: handleSubmit_history attachedOnly_def initialState_def)
  have "map item_title (history (saveCurrentSession 2000 2001 (handleSubmit exampleClock silentRemote attachedOnly)))
          = [ascii ''New Chat'']"
    by (simp add: saveCurrentSession_def m h t Let_def upsertHistory_def sessionTitle_def)
  moreover have "ascii ''New Chat'' \<noteq> []"
    by (simp add: ascii_def)
  ultimately show ?thesis
    using m t by simp
qed

section \<open>Encoding an attachment\<close>

text \<open>
  C9. When the reader's result is a framing prefix without a comma, the comma, and a
  base64 payload, \<open>fileToBase64\<close> resolves with the payload alone.
\<close>

theorem fileToBase64_strips_prefix:
  assumes "comma \<notin> set prefix" and "\<forall>c \<in> set payload. isBase64 c"
  shows "fileToBase64 (Loaded (Some (prefix @ [comma] @ payload))) = Inr (Some payload)"
proof -
  from assms(2) have "comma \<notin> set payload"
    using isBase64_not_comma by blast
  then have "split comma (prefix @ comma # payload) = [prefix, payload]"
    using assms(1) by (simp add: split_prefix split_no_sep)
  then show ?thesis
    by (simp add: fileToBase64_def at_index_def)
qed

theorem fileToBase64_strips_prefix_witness:
  "comma \<notin> set (ascii ''data:image/png;base64'')
   \<and> list_all isBase64 (ascii ''iVBORw=='')
   \<and> fileToBase64 (Loaded (Some (ascii ''data:image/png;base64,iVBORw==''))) = Inr (Some (ascii ''iVBORw==''))"
proof -
  have a: "comma \<notin> set (ascii ''data:image/png;base64'')"
    by (simp add: ascii_def comma_def)
  have b: "list_all isBase64 (ascii ''iVBORw=='')"
    by (simp add: ascii_def isBase64_def)
  then have b': "\<forall>c \<in> set (ascii ''iVBORw==''). isBase64 c"
    by (simp add: list_all_iff)
  have c: "ascii ''data:image/png;base64'' @ [comma] @ ascii ''iVBORw=='' = ascii ''data:image/png;base64,iVBORw==''"
    by (simp add: ascii_def comma_def)
  from fileToBase64_strips_prefix [OF a b'] a b c show ?thesis by simp
qed

section \<open>Suggestions\<close>

text \<open>
  C10. When the remote call rejects, the response has no text or an empty one, or the
  text does not parse, \<open>generateSuggestions\<close> resolves with the fallback list, which has
  4 items; and it never rejects.
\<close>

theorem generateSuggestions_fallback:
  "(r = CallRejects \<or> r = Response None \<or> r = Response (Some [])
      \<or> (\<exists>t. r = Response (Some t) \<and> parse t = None)
     \<longrightarrow> generateSuggestions parse r = Inr fallbackSuggestions)
   \<and> length fallbackSuggestions = 4
   \<and> (\<forall>e. generateSuggestions parse r \<noteq> Inl e)"
proof -
  have a: "r = CallRejects \<or> r = Response None \<or> r = Response (Some [])
      \<or> (\<exists>t. r = Response (Some t) \<and> parse t = None)
     \<longrightarrow> generateSuggestions parse r = Inr fallbackSuggestions"
    by (auto simp add: generateSuggestions_def generateSuggestions_try_def)
  have b: "length fallbackSuggestions = 4"
    by (simp add: fallbackSuggestions_def)
  have c: "\<forall>e. generateSuggestions parse r \<noteq> Inl e"
    by (simp add: generateSuggestions_def split: sum.splits)
  from a b c show ?thesis by blast
qed

theorem generateSuggestions_fallback_witness:
  "generateSuggestions (\<lambda>t. None) CallRejects = Inr fallbackSuggestions
   \<and> generateSuggestions (\<lambda>t. None) (Response None) = Inr fallbackSuggestions
   \<and> generateSuggestions (\<lambda>t. None) (Response (Some [])) = Inr fallbackSuggestions
   \<and> generateSuggestions (\<lambda>t. None) (Response (Some (ascii ''[{''))) = Inr fallbackSuggestions
   \<and> map suggestion_text fallbackSuggestions =
       [ascii ''Write a Python script for web scraping'', ascii ''Explain CSS Grid vs Flexbox'',
        ascii ''Debug this React useEffect hook'', ascii ''Visualize data with Matplotlib'']"
proof -
  have t: "map suggestion_text fallbackSuggestions =
       [ascii ''Write a Python script for web scraping'', ascii ''Explain CSS Grid vs Flexbox'',
        ascii ''Debug this React useEffect hook'', ascii ''Visualize data with Matplotlib'']"
    by (simp add: fallbackSuggestions_def)
  from generateSuggestions_fallback [of CallRejects "\<lambda>t. None"]
    generateSuggestions_fallback [of "Response None" "\<lambda>t. None"]
    generateSuggestions_fallback [of "Response (Some [])" "\<lambda>t. None"]
    generateSuggestions_fallback [of "Response (Some (ascii ''[{''))" "\<lambda>t. None"] t
  show ?thesis by simp
qed

end
